theory Spec2Isabelle
  imports Main "HOL-Library.Word"
begin

section \<open>The query filter builder of pkg/db/common.go\<close>

subsection \<open>Pagination\<close>

type_synonym uint32 = "32 word"

definition DefaultOffset :: uint32 where
  "DefaultOffset = 0"

definition DefaultLimit :: uint32 where
  "DefaultLimit = 20"

definition DefaultSelectLimit :: uint32 where
  "DefaultSelectLimit = 200"

text \<open>
  \<^verbatim>\<open>GetLimit\<close> compares an unsigned value with zero first; the branch is kept as
  the source writes it.
\<close>

definition GetLimit :: "uint32 \<Rightarrow> uint32" where
  "GetLimit n =
     (let n1 = (if n < 0 then 0 else n);
          n2 = (if n1 > DefaultSelectLimit then DefaultSelectLimit else n1)
      in n2)"

definition GetOffset :: "uint32 \<Rightarrow> uint32" where
  "GetOffset n = (if n < 0 then 0 else n)"

text \<open>
  The interfaces \<^verbatim>\<open>RequestHadLimit\<close> and \<^verbatim>\<open>RequestHadOffset\<close> expose one getter
  each; a request is modelled by the values its getters return.
\<close>

record RequestHadLimit =
  Limit :: uint32

record RequestHadOffset =
  Offset :: uint32

definition GetOffsetFromRequest :: "RequestHadOffset \<Rightarrow> uint32" where
  "GetOffsetFromRequest req =
     (let n = Offset req in if n = 0 then DefaultOffset else GetOffset n)"

definition GetLimitFromRequest :: "RequestHadLimit \<Rightarrow> uint32" where
  "GetLimitFromRequest req =
     (let n = Limit req in if n = 0 then DefaultLimit else GetLimit n)"

subsection \<open>Helpers of the string utilities and the standard library\<close>

text \<open>
  Modelled from the spec: \<^verbatim>\<open>stringutil.Contains\<close> is not among the sources. The
  spec reads it as membership of the string in the list (``the table's
  indexed-column set contains that column'', ``the columns present in a table's
  full column list'').
\<close>

fun Contains :: "string list \<Rightarrow> string \<Rightarrow> bool" where
  "Contains [] s = False"
| "Contains (x # xs) s = (if x = s then True else Contains xs s)"

subsection \<open>Display columns\<close>

text \<open>
  A Go slice is \<^verbatim>\<open>nil\<close> or a list; \<^verbatim>\<open>GetDisplayColumns\<close> tells a nil
  \<^verbatim>\<open>displayColumns\<close> (\<open>None\<close>) from an empty one (\<open>Some []\<close>). The loop appends to
  a nil slice; the result is read as the list of its elements, a nil result being the
  empty list.
\<close>

fun displayLoop :: "string list \<Rightarrow> string list \<Rightarrow> string list \<Rightarrow> string list" where
  "displayLoop [] wholeColumns newDisplayColumns = newDisplayColumns"
| "displayLoop (column # rest) wholeColumns newDisplayColumns =
     (if Contains wholeColumns column
      then displayLoop rest wholeColumns (newDisplayColumns @ [column])
      else displayLoop rest wholeColumns newDisplayColumns)"

definition GetDisplayColumns :: "string list option \<Rightarrow> string list \<Rightarrow> string list" where
  "GetDisplayColumns displayColumns wholeColumns =
     (case displayColumns of
        None \<Rightarrow> wholeColumns
      | Some ds \<Rightarrow> if length ds = 0 then [] else displayLoop ds wholeColumns [])"

subsection \<open>Filter values\<close>

type_synonym int32 = "32 word"

text \<open>
  The dynamic value of a request field, by the cases of the type switch in
  \<^verbatim>\<open>getReqValue\<close>: a string, a pointer to a wrapped string or a wrapped int32
  (\<open>None\<close> is the nil pointer, \<open>Some v\<close> a wrapper holding \<open>v\<close>), a slice of
  strings, or a value of any other type (the nil interface included).
\<close>

datatype param =
    PString string
  | PStringValue "string option"
  | PInt32Value "int32 option"
  | PStringList "string list"
  | POther

text \<open>
  What \<^verbatim>\<open>getReqValue\<close> returns when it does not return nil: a \<^verbatim>\<open>[]string\<close> or a
  \<^verbatim>\<open>[]int32\<close>. The nil interface is \<open>None\<close>.
\<close>

datatype reqvalue = Strings "string list" | Int32s "int32 list"

fun valuesLoop :: "string list \<Rightarrow> string list \<Rightarrow> string list" where
  "valuesLoop [] values = values"
| "valuesLoop (v # rest) values =
     (if v \<noteq> [] then valuesLoop rest (values @ [v]) else valuesLoop rest values)"

fun getReqValue :: "param \<Rightarrow> reqvalue option" where
  "getReqValue (PString v) = (if v = [] then None else Some (Strings [v]))"
| "getReqValue (PStringValue p) =
     (case p of None \<Rightarrow> None | Some v \<Rightarrow> Some (Strings [v]))"
| "getReqValue (PInt32Value p) =
     (case p of None \<Rightarrow> None | Some v \<Rightarrow> Some (Int32s [v]))"
| "getReqValue (PStringList vs) =
     (let values = valuesLoop vs []
      in if length values = 0 then None else Some (Strings values))"
| "getReqValue POther = None"

subsection \<open>Field names\<close>

text \<open>
  A field of the request as \<^verbatim>\<open>structs.Fields\<close> yields it: the \<^verbatim>\<open>json\<close> entry of
  its struct tag (\<open>None\<close> when the field declares none) and its value.
  \<^verbatim>\<open>field.Tag\<close> returns the empty string for a tag that is absent.
\<close>

record Field =
  tag :: "string option"
  val :: param

definition Tag :: "Field \<Rightarrow> string" where
  "Tag field = (case tag field of None \<Rightarrow> [] | Some t \<Rightarrow> t)"

text \<open>
  Go's \<^verbatim>\<open>strings.Split\<close> for a separator of one character: the pieces between the
  separators, so one piece more than there are separators; the empty string gives
  one empty piece. \<open>cur\<close> is the piece being read.
\<close>

fun splitFrom :: "string \<Rightarrow> char \<Rightarrow> string \<Rightarrow> string list" where
  "splitFrom [] sep cur = [cur]"
| "splitFrom (c # cs) sep cur =
     (if c = sep then cur # splitFrom cs sep [] else splitFrom cs sep (cur @ [c]))"

definition Split :: "string \<Rightarrow> char \<Rightarrow> string list" where
  "Split s sep = splitFrom s sep []"

definition getFieldName :: "Field \<Rightarrow> string" where
  "getFieldName field =
     (let t = Split (Tag field) (CHR '','')
      in if length t = 0 then ''-'' else t ! 0)"

subsection \<open>The chain\<close>

text \<open>
  The query builder (\<^verbatim>\<open>gorm.DB\<close>) is an external collaborator; it is modelled by the
  clauses attached to it so far, in order: \<^verbatim>\<open>Where(query, args...)\<close> and
  \<^verbatim>\<open>Order(value)\<close> each return the builder with one clause more. The builder joins
  its \<^verbatim>\<open>Where\<close> clauses with AND when it renders the query.
\<close>

datatype clause = Where string "reqvalue list" | Order string

type_synonym gormDB = "clause list"

definition gormWhere :: "gormDB \<Rightarrow> string \<Rightarrow> reqvalue list \<Rightarrow> gormDB" where
  "gormWhere db query args = db @ [Where query args]"

definition gormOrder :: "gormDB \<Rightarrow> string \<Rightarrow> gormDB" where
  "gormOrder db v = db @ [Order v]"

record Chain =
  DB :: gormDB

text \<open>A line of the log: the format of a \<^verbatim>\<open>logger.Warnf\<close> call and its argument.\<close>

datatype logline = Warnf string "reqvalue option"

subsection \<open>Constants\<close>

text \<open>
  The tables of \<^verbatim>\<open>pkg/constants\<close> are not among the sources; the builder takes them
  as a parameter. \<^verbatim>\<open>IndexedColumns\<close> and \<^verbatim>\<open>SearchColumns\<close> are Go maps from a
  table name to a slice of column names, \<^verbatim>\<open>SearchWordColumnTable\<close> is a slice of table
  names and \<^verbatim>\<open>ColumnGroupPath\<close> a column name.
\<close>

record constants =
  IndexedColumns :: "string \<Rightarrow> string list option"
  SearchColumns :: "string \<Rightarrow> string list option"
  SearchWordColumnTable :: "string list"
  ColumnGroupPath :: string

definition SearchWordColumnName :: string where
  "SearchWordColumnName = ''search_word''"

text \<open>Indexing a Go map of slices at a missing key gives the nil slice.\<close>

definition searchColumnsOf :: "constants \<Rightarrow> string \<Rightarrow> string list" where
  "searchColumnsOf k tableName =
     (case SearchColumns k tableName of None \<Rightarrow> [] | Some cs \<Rightarrow> cs)"

subsection \<open>String helpers of the standard library\<close>

fun Join :: "string list \<Rightarrow> string \<Rightarrow> string" where
  "Join [] sep = []"
| "Join [x] sep = x"
| "Join (x # y # ys) sep = x @ sep @ Join (y # ys) sep"

definition HasSuffix :: "string \<Rightarrow> string \<Rightarrow> bool" where
  "HasSuffix s suffix =
     (length s \<ge> length suffix \<and> drop (length s - length suffix) s = suffix)"

text \<open>The single quote that the conditions put around a term.\<close>

definition quote :: string where
  "quote = [CHR 0x27]"

subsection \<open>Root group conditions\<close>

text \<open>
  \<^verbatim>\<open>stringutil.SimplifyString\<close> is not among the sources: every function that calls
  it takes it as the parameter \<open>SimplifyString\<close>.
\<close>

fun rootGroupLoop ::
  "(string \<Rightarrow> string) \<Rightarrow> constants \<Rightarrow> string list \<Rightarrow> string list \<Rightarrow> string list" where
  "rootGroupLoop SimplifyString k [] conditions = conditions"
| "rootGroupLoop SimplifyString k (v # rest) conditions =
     (let likeV = ''%'' @ SimplifyString v @ ''%''
      in rootGroupLoop SimplifyString k rest
           (conditions @ [ColumnGroupPath k @ '' LIKE '' @ quote @ likeV @ quote]))"

definition BuildRootGroupIdConditions ::
  "(string \<Rightarrow> string) \<Rightarrow> constants \<Rightarrow> Chain \<Rightarrow> string list \<Rightarrow> Chain" where
  "BuildRootGroupIdConditions SimplifyString k c rootGroupIds =
     (if length rootGroupIds > 0
      then (let conditions = rootGroupLoop SimplifyString k rootGroupIds [];
                condition = Join conditions '' OR ''
            in c\<lparr>DB := gormWhere (DB c) condition []\<rparr>)
      else c)"

subsection \<open>The search filter\<close>

fun columnLoop ::
  "(string \<Rightarrow> string) \<Rightarrow> string list \<Rightarrow> string list \<Rightarrow> string \<Rightarrow> string list \<Rightarrow> string list" where
  "columnLoop SimplifyString [] exclude v orConditions = orConditions"
| "columnLoop SimplifyString (column # rest) exclude v orConditions =
     (if Contains exclude column
      then columnLoop SimplifyString rest exclude v orConditions
      else if HasSuffix column ''_id''
      then columnLoop SimplifyString rest exclude v
             (orConditions @ [column @ '' = '' @ quote @ v @ quote])
      else (let likeV = ''%'' @ SimplifyString v @ ''%''
            in columnLoop SimplifyString rest exclude v
                 (orConditions @ [column @ '' LIKE '' @ quote @ likeV @ quote])))"

fun termLoop ::
  "(string \<Rightarrow> string) \<Rightarrow> string list \<Rightarrow> string list \<Rightarrow> string list \<Rightarrow> string list \<Rightarrow> string list" where
  "termLoop SimplifyString columns exclude [] orConditions = orConditions"
| "termLoop SimplifyString columns exclude (v # rest) orConditions =
     termLoop SimplifyString columns exclude rest
       (columnLoop SimplifyString columns exclude v orConditions)"

text \<open>
  \<^verbatim>\<open>getSearchFilter\<close> changes the chain and may log; it takes and returns both. The
  one append to \<^verbatim>\<open>andConditions\<close> stands after the loop over the terms, as in the
  source.
\<close>

definition getSearchFilter ::
  "(string \<Rightarrow> string) \<Rightarrow> constants \<Rightarrow> string \<Rightarrow> reqvalue option \<Rightarrow> string list
     \<Rightarrow> Chain \<times> logline list \<Rightarrow> Chain \<times> logline list" where
  "getSearchFilter SimplifyString k tableName v exclude st =
     (let c = fst st; log = snd st;
          r = (case v of
                 Some (Strings vs) \<Rightarrow>
                   (let orConditions =
                          termLoop SimplifyString (searchColumnsOf k tableName) exclude vs []
                    in ([Join orConditions '' OR ''], log))
               | Some (Int32s w) \<Rightarrow>
                   ([], log @ [Warnf ''search_word [%+v] is not []string'' v])
               | None \<Rightarrow> ([], log));
          andConditions = fst r;
          condition = Join andConditions '' AND ''
      in (c\<lparr>DB := gormWhere (DB c) condition []\<rparr>, snd r))"

subsection \<open>The filter conditions\<close>

definition fieldStep ::
  "(string \<Rightarrow> string) \<Rightarrow> constants \<Rightarrow> string \<Rightarrow> string list \<Rightarrow> Field
     \<Rightarrow> Chain \<times> logline list \<Rightarrow> Chain \<times> logline list" where
  "fieldStep SimplifyString k tableName exclude field st =
     (let c = fst st; log = snd st;
          column = getFieldName field;
          param = val field;
          c1 = (case IndexedColumns k tableName of
                  Some indexedColumns \<Rightarrow>
                    if Contains indexedColumns column
                    then (case getReqValue param of
                            Some v \<Rightarrow> c\<lparr>DB := gormWhere (DB c) (column @ '' in (?)'') [v]\<rparr>
                          | None \<Rightarrow> c)
                    else c
                | None \<Rightarrow> c)
      in if column = SearchWordColumnName \<and> Contains (SearchWordColumnTable k) tableName
         then getSearchFilter SimplifyString k tableName (getReqValue param) exclude (c1, log)
         else (c1, log))"

fun fieldsLoop ::
  "(string \<Rightarrow> string) \<Rightarrow> constants \<Rightarrow> string \<Rightarrow> string list \<Rightarrow> Field list
     \<Rightarrow> Chain \<times> logline list \<Rightarrow> Chain \<times> logline list" where
  "fieldsLoop SimplifyString k tableName exclude [] st = st"
| "fieldsLoop SimplifyString k tableName exclude (field # rest) st =
     fieldsLoop SimplifyString k tableName exclude rest
       (fieldStep SimplifyString k tableName exclude field st)"

text \<open>
  A request: the fields \<^verbatim>\<open>structs.Fields\<close> yields for it, and the getters its type
  has beside the four methods of \<^verbatim>\<open>Request\<close>: \<open>GetSortKey\<close> and \<open>GetReverse\<close> are
  \<open>None\<close> when the type has no such method, and the value the method returns
  otherwise.
\<close>

record Request =
  Fields :: "Field list"
  GetSortKey :: "string option"
  GetReverse :: "bool option"

definition buildFilterConditions ::
  "(string \<Rightarrow> string) \<Rightarrow> constants \<Rightarrow> Chain \<times> logline list \<Rightarrow> Request \<Rightarrow> string
     \<Rightarrow> string list \<Rightarrow> Chain \<times> logline list" where
  "buildFilterConditions SimplifyString k st req tableName exclude =
     fieldsLoop SimplifyString k tableName exclude (Fields req) st"

definition BuildFilterConditions ::
  "(string \<Rightarrow> string) \<Rightarrow> constants \<Rightarrow> Chain \<times> logline list \<Rightarrow> Request \<Rightarrow> string
     \<Rightarrow> string list \<Rightarrow> Chain \<times> logline list" where
  "BuildFilterConditions SimplifyString k st req tableName exclude =
     buildFilterConditions SimplifyString k st req tableName exclude"

subsection \<open>The call on any request, and the panics of the reflection library\<close>

text \<open>
  \<^verbatim>\<open>buildFilterConditions\<close> reads the request through the \<^verbatim>\<open>structs\<close> library:
  \<^verbatim>\<open>structs.Fields(req)\<close> panics on a request that is nil or is not a struct (nor a
  pointer to one), and \<^verbatim>\<open>field.Value()\<close> panics on a field that is not exported.
  The definitions above are the function on a request whose fields can all be read.
  Here the request is whatever value the caller hands over: not a struct, or a struct
  with its members in order, each exported (a \<open>Field\<close>) or unexported (of which only
  the tag can be read). The loop reads the value of each member in turn and runs the
  step of the loop on it; a panic ends the call.
\<close>

datatype panic = NotStructPanic | UnexportedFieldPanic

datatype member = Exported Field | Unexported "string option"

datatype reqarg = NotStruct | StructOf "member list"

fun membersLoop ::
  "(string \<Rightarrow> string) \<Rightarrow> constants \<Rightarrow> string \<Rightarrow> string list \<Rightarrow> member list
     \<Rightarrow> Chain \<times> logline list \<Rightarrow> panic + Chain \<times> logline list" where
  "membersLoop SimplifyString k tableName exclude [] st = Inr st"
| "membersLoop SimplifyString k tableName exclude (Exported field # rest) st =
     membersLoop SimplifyString k tableName exclude rest
       (fieldStep SimplifyString k tableName exclude field st)"
| "membersLoop SimplifyString k tableName exclude (Unexported t # rest) st =
     Inl UnexportedFieldPanic"

definition BuildFilterConditionsCall ::
  "(string \<Rightarrow> string) \<Rightarrow> constants \<Rightarrow> Chain \<times> logline list \<Rightarrow> reqarg \<Rightarrow> string
     \<Rightarrow> string list \<Rightarrow> panic + Chain \<times> logline list" where
  "BuildFilterConditionsCall SimplifyString k st req tableName exclude =
     (case req of
        NotStruct \<Rightarrow> Inl NotStructPanic
      | StructOf members \<Rightarrow> membersLoop SimplifyString k tableName exclude members st)"

subsection \<open>Ordering\<close>

text \<open>
  The type assertions of \<^verbatim>\<open>AddQueryOrderDir\<close>. \<^verbatim>\<open>RequestWithSortKey\<close> asks for
  \<^verbatim>\<open>GetSortKey\<close>; \<^verbatim>\<open>RequestWithReverse\<close> embeds \<^verbatim>\<open>RequestWithSortKey\<close> and adds
  \<^verbatim>\<open>GetReverse\<close>, so a request satisfies it only when its type has both methods.
  Each assertion gives what the getter called on its result returns.
\<close>

definition asRequestWithSortKey :: "Request \<Rightarrow> string option" where
  "asRequestWithSortKey req = GetSortKey req"

definition asRequestWithReverse :: "Request \<Rightarrow> bool option" where
  "asRequestWithReverse req =
     (case GetSortKey req of
        None \<Rightarrow> None
      | Some s \<Rightarrow> GetReverse req)"

definition AddQueryOrderDir :: "Chain \<Rightarrow> Request \<Rightarrow> string \<Rightarrow> Chain" where
  "AddQueryOrderDir c req defaultColumn =
     (let order0 = ''DESC'';
          order = (case asRequestWithReverse req of
                     Some r \<Rightarrow> if r then ''ASC'' else order0
                   | None \<Rightarrow> order0);
          column = (case asRequestWithSortKey req of
                      Some s \<Rightarrow> if s \<noteq> [] then s else defaultColumn
                    | None \<Rightarrow> defaultColumn)
      in c\<lparr>DB := gormOrder (DB c) (column @ '' '' @ order)\<rparr>)"

section \<open>Password comparison of pkg/service/im/resource\<close>

text \<open>
  The user table and bcrypt are external: \<open>Take\<close> is the lookup of a user by id
  (\<^verbatim>\<open>Database.Table(TableUser).Take(user).Error\<close>), giving the error or the user
  row, and \<open>CompareHashAndPassword\<close> is bcrypt's comparison of a stored hash with a
  password, giving \<open>None\<close> for nil and the error otherwise. Of \<^verbatim>\<open>models.User\<close> the
  two fields read here are kept. A Go result \<^verbatim>\<open>(response, err)\<close> is a pair of
  options, \<open>None\<close> being nil. The calls to the logger are left out.
\<close>

datatype error = Error string

record User =
  UserId :: string
  Password :: string

record ComparePasswordRequest =
  ReqUserId :: string
  ReqPassword :: string

record ComparePasswordResponse =
  Ok :: bool

definition ComparePassword ::
  "(string \<Rightarrow> error + User) \<Rightarrow> (string \<Rightarrow> string \<Rightarrow> error option) \<Rightarrow> ComparePasswordRequest
     \<Rightarrow> ComparePasswordResponse option \<times> error option" where
  "ComparePassword Take CompareHashAndPassword req =
     (case Take (ReqUserId req) of
        Inl err \<Rightarrow> (None, Some err)
      | Inr user \<Rightarrow>
          (case CompareHashAndPassword (Password user) (ReqPassword req) of
             Some err \<Rightarrow> (Some \<lparr>Ok = False\<rparr>, None)
           | None \<Rightarrow> (Some \<lparr>Ok = True\<rparr>, None)))"

section \<open>Notions used to state the properties\<close>

text \<open>The clauses a chain \<open>c'\<close> holds beyond those of the chain \<open>c\<close> it grew from.\<close>

definition attached :: "Chain \<Rightarrow> Chain \<Rightarrow> clause list" where
  "attached c c' = drop (length (DB c)) (DB c')"

text \<open>
  The condition the inner loop of \<^verbatim>\<open>getSearchFilter\<close> appends for the term \<open>v\<close> and a
  column that is not excluded.
\<close>

definition columnCondition :: "(string \<Rightarrow> string) \<Rightarrow> string \<Rightarrow> string \<Rightarrow> string" where
  "columnCondition SimplifyString v column =
     (if HasSuffix column ''_id''
      then column @ '' = '' @ quote @ v @ quote
      else column @ '' LIKE '' @ quote @ (''%'' @ SimplifyString v @ ''%'') @ quote)"

text \<open>
  The clause the loop of \<^verbatim>\<open>buildFilterConditions\<close> attaches for a field on account of
  the indexed columns: none, or one \<^verbatim>\<open>in (?)\<close> predicate.
\<close>

definition inClause :: "constants \<Rightarrow> string \<Rightarrow> Field \<Rightarrow> clause list" where
  "inClause k T f =
     (case IndexedColumns k T of
        None \<Rightarrow> []
      | Some cols \<Rightarrow>
          if getFieldName f \<in> set cols
          then (case getReqValue (val f) of
                  None \<Rightarrow> []
                | Some v \<Rightarrow> [Where (getFieldName f @ '' in (?)'') [v]])
          else [])"

text \<open>
  The field is the search word of a table registered for search: the loop of
  \<^verbatim>\<open>buildFilterConditions\<close> runs the search step for it.
\<close>

definition searchStep :: "constants \<Rightarrow> string \<Rightarrow> Field \<Rightarrow> bool" where
  "searchStep k T f =
     (getFieldName f = SearchWordColumnName \<and> T \<in> set (SearchWordColumnTable k))"

text \<open>A normalized value that is present but is not a list of strings.\<close>

definition notStringList :: "reqvalue option \<Rightarrow> bool" where
  "notStringList v = (case v of Some (Int32s w) \<Rightarrow> True | Some (Strings vs) \<Rightarrow> False | None \<Rightarrow> False)"

text \<open>
  The clause the search step attaches for a field: none when the step does not run,
  else one \<^verbatim>\<open>Where\<close> with the search condition, which is empty unless the value is a
  list of strings.
\<close>

definition searchClause ::
  "(string \<Rightarrow> string) \<Rightarrow> constants \<Rightarrow> string \<Rightarrow> string list \<Rightarrow> Field \<Rightarrow> clause list" where
  "searchClause S k T E f =
     (if searchStep k T f
      then [Where (case getReqValue (val f) of
                     Some (Strings vs) \<Rightarrow>
                       Join (termLoop S (searchColumnsOf k T) E vs []) '' OR ''
                   | Some (Int32s w) \<Rightarrow> []
                   | None \<Rightarrow> []) []]
      else [])"

text \<open>The field with its value made absent (a value of a type the switch does not know).\<close>

definition blank :: "Field \<Rightarrow> Field" where
  "blank f = f\<lparr>val := POther\<rparr>"

section \<open>Properties\<close>

lemma Contains_set: "Contains xs s = (s \<in> set xs)"
  by (induction xs) auto

lemma displayLoop_filter:
  "displayLoop ds w acc = acc @ filter (\<lambda>c. c \<in> set w) ds"
  by (induction ds arbitrary: acc) (simp_all add: Contains_set)

text \<open>
  Claim C7. \<^verbatim>\<open>GetLimitFromRequest\<close> returns the default limit 20 for a request whose
  limit is 0, the maximum 200 for a limit above 200 (so 200 for limit 500), and the
  limit itself otherwise (so 50 for limit 50).
\<close>

theorem GetLimitFromRequest_clamps:
  "GetLimitFromRequest req =
     (if Limit req = 0 then 20 else if 200 < Limit req then 200 else Limit req)
   \<and> GetLimitFromRequest \<lparr>Limit = 0\<rparr> = 20
   \<and> GetLimitFromRequest \<lparr>Limit = 500\<rparr> = 200
   \<and> GetLimitFromRequest \<lparr>Limit = 50\<rparr> = 50"
  by (simp add: GetLimitFromRequest_def GetLimit_def DefaultLimit_def DefaultSelectLimit_def)

theorem GetLimitFromRequest_clamps_witness:
  "GetLimitFromRequest \<lparr>Limit = 201\<rparr> = 200 \<and> GetLimitFromRequest \<lparr>Limit = 200\<rparr> = 200"
  using GetLimitFromRequest_clamps [of "\<lparr>Limit = 201\<rparr>"]
    GetLimitFromRequest_clamps [of "\<lparr>Limit = 200\<rparr>"]
  by simp

text \<open>
  Claim C8. \<^verbatim>\<open>GetDisplayColumns\<close> returns \<^verbatim>\<open>wholeColumns\<close> when
  \<^verbatim>\<open>displayColumns\<close> is nil, an empty result when it is the empty list, and otherwise
  the columns of \<^verbatim>\<open>displayColumns\<close>, in their order, that occur in
  \<^verbatim>\<open>wholeColumns\<close>; an unknown column is dropped.
\<close>

theorem GetDisplayColumns_projects:
  "GetDisplayColumns None wholeColumns = wholeColumns
   \<and> GetDisplayColumns (Some []) wholeColumns = []
   \<and> GetDisplayColumns (Some ds) wholeColumns = filter (\<lambda>c. c \<in> set wholeColumns) ds
   \<and> GetDisplayColumns (Some [''a'', ''z'']) [''a'', ''b''] = [''a'']"
  by (simp add: GetDisplayColumns_def displayLoop_filter)

theorem GetDisplayColumns_projects_witness:
  "GetDisplayColumns (Some [''b'', ''q'', ''a'', ''b'']) [''a'', ''b''] = [''b'', ''a'', ''b'']"
  using GetDisplayColumns_projects [of "[''a'', ''b'']" "[''b'', ''q'', ''a'', ''b'']"]
  by simp

lemma valuesLoop_filter: "valuesLoop vs acc = acc @ filter (\<lambda>v. v \<noteq> []) vs"
  by (induction vs arbitrary: acc) simp_all

text \<open>
  Claim C3. \<^verbatim>\<open>getReqValue\<close> gives absent (nil) for the empty string, for a nil
  wrapped string or int32, and for a string list whose elements are all empty (the
  empty list among them); a singleton list for a non-empty plain string and for a
  wrapped string or int32 that is not nil; and for a string list with a non-empty
  element, the list of its non-empty elements in their order.
\<close>

theorem getReqValue_normalizes:
  "getReqValue (PString []) = None
   \<and> getReqValue (PStringValue None) = None
   \<and> getReqValue (PInt32Value None) = None
   \<and> ((\<forall>v \<in> set vs. v = []) \<longrightarrow> getReqValue (PStringList vs) = None)
   \<and> (s \<noteq> [] \<longrightarrow> getReqValue (PString s) = Some (Strings [s]))
   \<and> getReqValue (PStringValue (Some s)) = Some (Strings [s])
   \<and> getReqValue (PInt32Value (Some i)) = Some (Int32s [i])
   \<and> ((\<exists>v \<in> set vs. v \<noteq> []) \<longrightarrow>
        getReqValue (PStringList vs) = Some (Strings (filter (\<lambda>v. v \<noteq> []) vs)))"
  by (auto simp: valuesLoop_filter filter_empty_conv)

theorem getReqValue_normalizes_witness:
  "getReqValue (PStringList [[], []]) = None
   \<and> getReqValue (PString ''admin'') = Some (Strings [''admin''])
   \<and> getReqValue (PStringList [''a'', [], ''b'']) = Some (Strings [''a'', ''b''])"
  using getReqValue_normalizes [of "[[], []]" "''admin''"]
    getReqValue_normalizes [of "[''a'', [], ''b'']" "''admin''"]
  by simp

lemma splitFrom_nonempty: "splitFrom s sep cur \<noteq> []"
  by (induction s arbitrary: cur) simp_all

lemma Split_nonempty: "Split s sep \<noteq> []"
  by (simp add: Split_def splitFrom_nonempty)

lemma getFieldName_first_piece: "getFieldName field = Split (Tag field) (CHR '','') ! 0"
  by (simp add: getFieldName_def Split_nonempty Let_def)

lemma getFieldName_tagged:
  "getFieldName \<lparr>tag = Some ''user_id,omitempty'', val = v\<rparr> = ''user_id''"
  by (simp add: getFieldName_def Tag_def Split_def)

text \<open>
  Claim C6. For a field whose tag is absent the claim asks \<^verbatim>\<open>getFieldName\<close> for the
  marker \<open>''-''\<close>. The code returns the marker when splitting the tag gives no
  piece, but splitting always gives a piece (\<open>Split_nonempty\<close>), the empty string
  for the absent tag: the name derived for such a field is the empty string and not
  the marker.
\<close>

theorem getFieldName_absent_tag:
  "getFieldName \<lparr>tag = None, val = v\<rparr> = []
   \<and> getFieldName \<lparr>tag = None, val = v\<rparr> \<noteq> ''-''"
  by (simp add: getFieldName_def Tag_def Split_def)

lemma rootGroupLoop_map:
  "rootGroupLoop S k ids acc =
     acc @ map (\<lambda>v. ColumnGroupPath k @ '' LIKE '' @ quote @ ''%'' @ S v @ ''%'' @ quote) ids"
  by (induction ids arbitrary: acc) simp_all

text \<open>
  Claim C5. For a non-empty list of root group ids \<^verbatim>\<open>BuildRootGroupIdConditions\<close>
  attaches one \<^verbatim>\<open>Where\<close> clause to the chain (the builder ANDs its clauses): the
  \<^verbatim>\<open>LIKE\<close> predicates on the group-path column, one per id in order, each on
  \<open>%\<close>, the id passed through \<open>SimplifyString\<close> on its own, \<open>%\<close>, joined by
  \<^verbatim>\<open> OR \<close>. For the empty list it returns the chain as it was.
\<close>

theorem BuildRootGroupIdConditions_or_of_likes:
  "(rootGroupIds \<noteq> [] \<longrightarrow>
      BuildRootGroupIdConditions SimplifyString k c rootGroupIds =
        c\<lparr>DB := DB c @
          [Where (Join (map (\<lambda>v. ColumnGroupPath k @ '' LIKE '' @ quote @ ''%''
                                  @ SimplifyString v @ ''%'' @ quote)
                          rootGroupIds) '' OR '') []]\<rparr>)
   \<and> BuildRootGroupIdConditions SimplifyString k c [] = c"
  by (simp add: BuildRootGroupIdConditions_def rootGroupLoop_map gormWhere_def)

theorem BuildRootGroupIdConditions_or_of_likes_witness:
  "BuildRootGroupIdConditions (\<lambda>s. s)
     \<lparr>IndexedColumns = Map.empty, SearchColumns = Map.empty, SearchWordColumnTable = [],
      ColumnGroupPath = ''group_path''\<rparr> \<lparr>DB = []\<rparr> [''g1'', ''g2'']
   = \<lparr>DB = [Where (''group_path LIKE '%g1%' OR group_path LIKE '%g2%'' @ quote) []]\<rparr>"
  using BuildRootGroupIdConditions_or_of_likes [of "[''g1'', ''g2'']" "\<lambda>s. s"
     "\<lparr>IndexedColumns = Map.empty, SearchColumns = Map.empty, SearchWordColumnTable = [],
      ColumnGroupPath = ''group_path''\<rparr>" "\<lparr>DB = []\<rparr>"]
  by (simp add: quote_def)

text \<open>
  Claim C9, as amended. \<^verbatim>\<open>AddQueryOrderDir\<close> attaches the ordering clause \<open>S D\<close>:
  \<open>S\<close> is the request's sort key when the request exposes one and it is not empty,
  the default column otherwise; \<open>D\<close> is \<^verbatim>\<open>ASC\<close> when the request exposes a sort key
  and a reverse flag (it satisfies \<^verbatim>\<open>RequestWithReverse\<close>) and the flag is true,
  \<^verbatim>\<open>DESC\<close> otherwise. No sort key (an empty one, or none exposed) with reverse false
  on \<^verbatim>\<open>create_time\<close> gives \<^verbatim>\<open>create_time DESC\<close>; the sort key \<^verbatim>\<open>name\<close> with reverse
  true gives \<^verbatim>\<open>name ASC\<close>.
\<close>

theorem AddQueryOrderDir_order:
  "AddQueryOrderDir c req defaultColumn =
     c\<lparr>DB := DB c @
       [Order ((case GetSortKey req of
                  Some s \<Rightarrow> if s \<noteq> [] then s else defaultColumn
                | None \<Rightarrow> defaultColumn)
               @ '' '' @
               (if GetSortKey req \<noteq> None \<and> GetReverse req = Some True
                then ''ASC'' else ''DESC''))]\<rparr>
   \<and> AddQueryOrderDir \<lparr>DB = []\<rparr> \<lparr>Fields = [], GetSortKey = Some [], GetReverse = Some False\<rparr>
         ''create_time'' = \<lparr>DB = [Order ''create_time DESC'']\<rparr>
   \<and> AddQueryOrderDir \<lparr>DB = []\<rparr> \<lparr>Fields = [], GetSortKey = None, GetReverse = Some False\<rparr>
         ''create_time'' = \<lparr>DB = [Order ''create_time DESC'']\<rparr>
   \<and> AddQueryOrderDir \<lparr>DB = []\<rparr> \<lparr>Fields = [], GetSortKey = Some ''name'', GetReverse = Some True\<rparr>
         ''create_time'' = \<lparr>DB = [Order ''name ASC'']\<rparr>"
  by (cases "GetSortKey req"; cases "GetReverse req")
    (simp_all add: AddQueryOrderDir_def asRequestWithReverse_def asRequestWithSortKey_def
      gormOrder_def Let_def)

theorem AddQueryOrderDir_order_witness:
  "AddQueryOrderDir \<lparr>DB = [Where ''a'' []]\<rparr>
       \<lparr>Fields = [], GetSortKey = Some ''name'', GetReverse = None\<rparr> ''create_time''
     = \<lparr>DB = [Where ''a'' [], Order ''name DESC'']\<rparr>"
  using AddQueryOrderDir_order [of "\<lparr>DB = [Where ''a'' []]\<rparr>"
      "\<lparr>Fields = [], GetSortKey = Some ''name'', GetReverse = None\<rparr>" "''create_time''"]
  by simp

text \<open>
  Claim C9 as stated fails: a request whose type has \<^verbatim>\<open>GetReverse\<close>, returning
  true, and no \<^verbatim>\<open>GetSortKey\<close> does not satisfy \<^verbatim>\<open>RequestWithReverse\<close>, and the
  clause is \<^verbatim>\<open>create_time DESC\<close>.
\<close>

theorem AddQueryOrderDir_reverse_counterexample:
  "GetReverse \<lparr>Fields = [], GetSortKey = None, GetReverse = Some True\<rparr> = Some True
   \<and> AddQueryOrderDir \<lparr>DB = []\<rparr> \<lparr>Fields = [], GetSortKey = None, GetReverse = Some True\<rparr>
         ''create_time'' = \<lparr>DB = [Order ''create_time DESC'']\<rparr>
   \<and> AddQueryOrderDir \<lparr>DB = []\<rparr> \<lparr>Fields = [], GetSortKey = None, GetReverse = Some True\<rparr>
         ''create_time'' \<noteq> \<lparr>DB = [Order ''create_time ASC'']\<rparr>"
  by (simp add: AddQueryOrderDir_def asRequestWithReverse_def asRequestWithSortKey_def
      gormOrder_def)

text \<open>
  Claim C10. When the lookup of the user succeeds, \<^verbatim>\<open>ComparePassword\<close> returns a
  response with \<open>Ok\<close> false and a nil error if bcrypt reports that the stored hash
  and the password do not match, and a response with \<open>Ok\<close> true and a nil error if
  they match. It returns a nil response with an error exactly when the lookup fails,
  and the response is nil exactly when the error is not.
\<close>

theorem ComparePassword_results:
  "(Take (ReqUserId req) = Inr user \<longrightarrow>
      (CompareHashAndPassword (Password user) (ReqPassword req) \<noteq> None \<longrightarrow>
         ComparePassword Take CompareHashAndPassword req = (Some \<lparr>Ok = False\<rparr>, None))
      \<and> (CompareHashAndPassword (Password user) (ReqPassword req) = None \<longrightarrow>
         ComparePassword Take CompareHashAndPassword req = (Some \<lparr>Ok = True\<rparr>, None)))
   \<and> (fst (ComparePassword Take CompareHashAndPassword req) = None
        \<and> snd (ComparePassword Take CompareHashAndPassword req) \<noteq> None
      \<longleftrightarrow> (\<exists>err. Take (ReqUserId req) = Inl err))
   \<and> (fst (ComparePassword Take CompareHashAndPassword req) = None
      \<longleftrightarrow> snd (ComparePassword Take CompareHashAndPassword req) \<noteq> None)"
  by (auto simp: ComparePassword_def split: sum.splits option.splits)

theorem ComparePassword_results_witness:
  "ComparePassword (\<lambda>u. if u = ''usr-1'' then Inr \<lparr>UserId = ''usr-1'', Password = ''h1''\<rparr>
                        else Inl (Error ''record not found''))
     (\<lambda>h p. if h = ''h1'' \<and> p = ''secret'' then None else Some (Error ''mismatch''))
     \<lparr>ReqUserId = ''usr-1'', ReqPassword = ''wrong''\<rparr> = (Some \<lparr>Ok = False\<rparr>, None)
   \<and> ComparePassword (\<lambda>u. if u = ''usr-1'' then Inr \<lparr>UserId = ''usr-1'', Password = ''h1''\<rparr>
                        else Inl (Error ''record not found''))
     (\<lambda>h p. if h = ''h1'' \<and> p = ''secret'' then None else Some (Error ''mismatch''))
     \<lparr>ReqUserId = ''usr-1'', ReqPassword = ''secret''\<rparr> = (Some \<lparr>Ok = True\<rparr>, None)"
  using ComparePassword_results [of
      "\<lambda>u. if u = ''usr-1'' then Inr \<lparr>UserId = ''usr-1'', Password = ''h1''\<rparr>
            else Inl (Error ''record not found'')"
      "\<lparr>ReqUserId = ''usr-1'', ReqPassword = ''wrong''\<rparr>"
      "\<lparr>UserId = ''usr-1'', Password = ''h1''\<rparr>"
      "\<lambda>h p. if h = ''h1'' \<and> p = ''secret'' then None else Some (Error ''mismatch'')"]
    ComparePassword_results [of
      "\<lambda>u. if u = ''usr-1'' then Inr \<lparr>UserId = ''usr-1'', Password = ''h1''\<rparr>
            else Inl (Error ''record not found'')"
      "\<lparr>ReqUserId = ''usr-1'', ReqPassword = ''secret''\<rparr>"
      "\<lparr>UserId = ''usr-1'', Password = ''h1''\<rparr>"
      "\<lambda>h p. if h = ''h1'' \<and> p = ''secret'' then None else Some (Error ''mismatch'')"]
  by simp

lemma columnLoop_map:
  "columnLoop S cols E v acc =
     acc @ map (columnCondition S v) (filter (\<lambda>c. c \<notin> set E) cols)"
  by (induction cols arbitrary: acc) (simp_all add: Contains_set columnCondition_def)

lemma termLoop_concat:
  "termLoop S cols E vs acc =
     acc @ concat (map (\<lambda>v. map (columnCondition S v) (filter (\<lambda>c. c \<notin> set E) cols)) vs)"
  by (induction vs arbitrary: acc) (simp_all add: columnLoop_map)

lemma columnCondition_last:
  "columnCondition S v col \<noteq> [] \<and> last (columnCondition S v col) = CHR 0x27"
  by (simp add: columnCondition_def quote_def)

lemma Join_last:
  "xs \<noteq> [] \<Longrightarrow> \<forall>x \<in> set xs. x \<noteq> [] \<and> last x = q \<Longrightarrow>
     Join xs sep \<noteq> [] \<and> last (Join xs sep) = q"
  by (induction xs sep rule: Join.induct) auto

lemma termLoop_last:
  "x \<in> set (termLoop S cols E vs []) \<Longrightarrow> x \<noteq> [] \<and> last x = CHR 0x27"
  by (auto simp: termLoop_concat columnCondition_last)

lemma search_condition_not_in:
  "Join (termLoop S cols E vs []) '' OR '' \<noteq> C @ '' in (?)''"
proof (cases "termLoop S cols E vs [] = []")
  case True
  then show ?thesis by simp
next
  case False
  then have "last (Join (termLoop S cols E vs []) '' OR '') = CHR 0x27"
    using Join_last [of "termLoop S cols E vs []" "CHR 0x27" "'' OR ''"] termLoop_last
    by blast
  moreover have "last (C @ '' in (?)'') = CHR '')''" by simp
  ultimately show ?thesis by auto
qed

lemma getSearchFilter_eq:
  "getSearchFilter S k T v E (c, log) =
     (c\<lparr>DB := DB c @
         [Where (case v of
                   Some (Strings vs) \<Rightarrow> Join (termLoop S (searchColumnsOf k T) E vs []) '' OR ''
                 | Some (Int32s w) \<Rightarrow> []
                 | None \<Rightarrow> []) []]\<rparr>,
      log @ (case v of
               Some (Strings vs) \<Rightarrow> []
             | Some (Int32s w) \<Rightarrow> [Warnf ''search_word [%+v] is not []string'' v]
             | None \<Rightarrow> []))"
  by (simp add: getSearchFilter_def gormWhere_def split: option.splits reqvalue.splits)

lemma fieldStep_shape:
  "\<exists>q ws. (fieldStep S k T E f (c, log) = (c\<lparr>DB := DB c @ inClause k T f\<rparr>, log)
            \<or> fieldStep S k T E f (c, log) =
                 (c\<lparr>DB := DB c @ inClause k T f @ [Where q []]\<rparr>, log @ ws))
     \<and> (\<forall>C. q \<noteq> C @ '' in (?)'')
     \<and> (\<forall>w \<in> set ws. \<exists>x. w = Warnf ''search_word [%+v] is not []string'' (Some (Int32s x)))"
proof -
  let ?v = "getReqValue (val f)"
  let ?q = "case ?v of
              Some (Strings vs) \<Rightarrow> Join (termLoop S (searchColumnsOf k T) E vs []) '' OR ''
            | Some (Int32s w) \<Rightarrow> []
            | None \<Rightarrow> []"
  let ?ws = "case ?v of
               Some (Strings vs) \<Rightarrow> []
             | Some (Int32s w) \<Rightarrow> [Warnf ''search_word [%+v] is not []string'' ?v]
             | None \<Rightarrow> []"
  have step: "fieldStep S k T E f (c, log) = (c\<lparr>DB := DB c @ inClause k T f\<rparr>, log)
      \<or> fieldStep S k T E f (c, log) =
           (c\<lparr>DB := DB c @ inClause k T f @ [Where ?q []]\<rparr>, log @ ?ws)"
    by (simp add: fieldStep_def getSearchFilter_eq inClause_def Contains_set Let_def gormWhere_def
        split: option.splits)
  have q: "\<forall>C. ?q \<noteq> C @ '' in (?)''"
    by (simp add: search_condition_not_in split: option.splits reqvalue.splits)
  have ws: "\<forall>w \<in> set ?ws. \<exists>x. w = Warnf ''search_word [%+v] is not []string'' (Some (Int32s x))"
  proof (cases "getReqValue (val f)")
    case None
    then show ?thesis by simp
  next
    case (Some rv)
    then show ?thesis by (cases rv) simp_all
  qed
  from step q ws show ?thesis by blast
qed


lemma fieldsLoop_shape:
  "\<exists>added ws. fieldsLoop S k T E fs (c, log) = (c\<lparr>DB := DB c @ added\<rparr>, log @ ws)
     \<and> (\<forall>f \<in> set fs. set (inClause k T f) \<subseteq> set added)
     \<and> (\<forall>cl \<in> set added. (\<exists>f \<in> set fs. cl \<in> set (inClause k T f))
            \<or> (\<exists>q. cl = Where q [] \<and> (\<forall>C. q \<noteq> C @ '' in (?)'')))
     \<and> (\<forall>w \<in> set ws. \<exists>x. w = Warnf ''search_word [%+v] is not []string'' (Some (Int32s x)))"
proof (induction fs arbitrary: c log)
  case Nil
  show ?case by (rule exI [of _ "[]"], rule exI [of _ "[]"]) simp
next
  case (Cons f fs)
  obtain q ws1 where
    step: "fieldStep S k T E f (c, log) = (c\<lparr>DB := DB c @ inClause k T f\<rparr>, log)
            \<or> fieldStep S k T E f (c, log) =
                 (c\<lparr>DB := DB c @ inClause k T f @ [Where q []]\<rparr>, log @ ws1)"
    and q: "\<forall>C. q \<noteq> C @ '' in (?)''"
    and ws1: "\<forall>w \<in> set ws1. \<exists>x. w = Warnf ''search_word [%+v] is not []string'' (Some (Int32s x))"
    using fieldStep_shape [of S k T E f c log] by blast
  from step show ?case
  proof
    assume s1: "fieldStep S k T E f (c, log) = (c\<lparr>DB := DB c @ inClause k T f\<rparr>, log)"
    obtain added ws where
      r: "fieldsLoop S k T E fs (c\<lparr>DB := DB c @ inClause k T f\<rparr>, log) =
            (c\<lparr>DB := DB c @ inClause k T f @ added\<rparr>, log @ ws)"
      and a1: "\<forall>g \<in> set fs. set (inClause k T g) \<subseteq> set added"
      and a2: "\<forall>cl \<in> set added. (\<exists>g \<in> set fs. cl \<in> set (inClause k T g))
            \<or> (\<exists>q. cl = Where q [] \<and> (\<forall>C. q \<noteq> C @ '' in (?)''))"
      and a3: "\<forall>w \<in> set ws. \<exists>x. w = Warnf ''search_word [%+v] is not []string'' (Some (Int32s x))"
      using Cons.IH [of "c\<lparr>DB := DB c @ inClause k T f\<rparr>" log] by auto
    show ?thesis
      apply (rule exI [of _ "inClause k T f @ added"], rule exI [of _ ws])
      using s1 r a1 a2 a3 by auto
  next
    assume s2: "fieldStep S k T E f (c, log) =
                 (c\<lparr>DB := DB c @ inClause k T f @ [Where q []]\<rparr>, log @ ws1)"
    obtain added ws where
      r: "fieldsLoop S k T E fs (c\<lparr>DB := DB c @ inClause k T f @ [Where q []]\<rparr>, log @ ws1) =
            (c\<lparr>DB := DB c @ inClause k T f @ [Where q []] @ added\<rparr>, log @ ws1 @ ws)"
      and a1: "\<forall>g \<in> set fs. set (inClause k T g) \<subseteq> set added"
      and a2: "\<forall>cl \<in> set added. (\<exists>g \<in> set fs. cl \<in> set (inClause k T g))
            \<or> (\<exists>q. cl = Where q [] \<and> (\<forall>C. q \<noteq> C @ '' in (?)''))"
      and a3: "\<forall>w \<in> set ws. \<exists>x. w = Warnf ''search_word [%+v] is not []string'' (Some (Int32s x))"
      using Cons.IH [of "c\<lparr>DB := DB c @ inClause k T f @ [Where q []]\<rparr>" "log @ ws1"] by auto
    show ?thesis
      apply (rule exI [of _ "inClause k T f @ [Where q []] @ added"], rule exI [of _ "ws1 @ ws"])
      using s2 r a1 a2 a3 q ws1 by auto
  qed
qed

lemma attached_append: "attached c (c\<lparr>DB := DB c @ added\<rparr>) = added"
  by (simp add: attached_def)

lemma getReqValue_nonempty:
  "getReqValue p = Some v \<Longrightarrow> v \<noteq> Strings [] \<and> v \<noteq> Int32s []"
  by (cases p) (auto simp: valuesLoop_filter Let_def split: if_splits option.splits)

lemma inClause_absent: "getReqValue (val f) = None \<Longrightarrow> inClause k T f = []"
  by (simp add: inClause_def split: option.splits)

lemma inClause_present:
  "IndexedColumns k T = Some cols \<Longrightarrow> getFieldName f \<in> set cols \<Longrightarrow>
     getReqValue (val f) = Some v \<Longrightarrow>
     inClause k T f = [Where (getFieldName f @ '' in (?)'') [v]]"
  by (simp add: inClause_def)

lemma inClause_cases:
  "inClause k T g = [] \<or>
   (\<exists>v. getReqValue (val g) = Some v
      \<and> inClause k T g = [Where (getFieldName g @ '' in (?)'') [v]])"
  by (simp add: inClause_def split: option.split)

lemma inClause_member:
  "Where q a \<in> set (inClause k T g) \<Longrightarrow>
     q = getFieldName g @ '' in (?)'' \<and> getReqValue (val g) \<noteq> None"
  using inClause_cases [of k T g] by auto

text \<open>
  Claim C1. Let the table \<open>T\<close> have the indexed columns \<open>cols\<close> and let \<open>f\<close> be a
  field of the request whose column name \<open>C\<close> is among them. If the value of \<open>f\<close>
  normalizes to a list \<open>v\<close> (which is then not empty), \<^verbatim>\<open>BuildFilterConditions\<close>
  attaches the predicate \<open>C in (?)\<close> bound to exactly \<open>v\<close>. If it normalizes to
  absent, and so does every other field of the request that has the same column name
  (there is none when the names of the fields differ), no clause with the text
  \<open>C in (?)\<close> is attached.
\<close>

theorem BuildFilterConditions_indexed_in:
  assumes idx: "IndexedColumns k T = Some cols"
    and f: "f \<in> set (Fields req)"
    and col: "getFieldName f \<in> set cols"
  shows "(\<forall>v. getReqValue (val f) = Some v \<longrightarrow>
            v \<noteq> Strings [] \<and> v \<noteq> Int32s []
            \<and> Where (getFieldName f @ '' in (?)'') [v]
                \<in> set (attached c (fst (BuildFilterConditions S k (c, log) req T E))))
       \<and> ((\<forall>g \<in> set (Fields req).
              getFieldName g = getFieldName f \<longrightarrow> getReqValue (val g) = None) \<longrightarrow>
            (\<forall>a. Where (getFieldName f @ '' in (?)'') a
                \<notin> set (attached c (fst (BuildFilterConditions S k (c, log) req T E)))))"
proof -
  obtain added ws where
    r: "fieldsLoop S k T E (Fields req) (c, log) = (c\<lparr>DB := DB c @ added\<rparr>, log @ ws)"
    and sub: "\<forall>g \<in> set (Fields req). set (inClause k T g) \<subseteq> set added"
    and sup: "\<forall>cl \<in> set added. (\<exists>g \<in> set (Fields req). cl \<in> set (inClause k T g))
            \<or> (\<exists>q. cl = Where q [] \<and> (\<forall>C. q \<noteq> C @ '' in (?)''))"
    using fieldsLoop_shape [of S k T E "Fields req" c log] by blast
  have att: "attached c (fst (BuildFilterConditions S k (c, log) req T E)) = added"
    by (simp add: BuildFilterConditions_def buildFilterConditions_def r attached_append)
  have present: "Where (getFieldName f @ '' in (?)'') [v] \<in> set added"
    if "getReqValue (val f) = Some v" for v
    using sub f inClause_present [OF idx col that] by auto
  have absent: "Where (getFieldName f @ '' in (?)'') a \<notin> set added"
    if all: "\<forall>g \<in> set (Fields req).
              getFieldName g = getFieldName f \<longrightarrow> getReqValue (val g) = None" for a
  proof
    assume "Where (getFieldName f @ '' in (?)'') a \<in> set added"
    with sup obtain g where "g \<in> set (Fields req)"
      and "Where (getFieldName f @ '' in (?)'') a \<in> set (inClause k T g)"
      by blast
    then show False using inClause_member all by fastforce
  qed
  show ?thesis using att present absent getReqValue_nonempty by blast
qed

theorem BuildFilterConditions_indexed_in_witness:
  "Where ''user_id in (?)'' [Strings [''u1'']]
     \<in> set (attached \<lparr>DB = []\<rparr> (fst (BuildFilterConditions (\<lambda>s. s)
         \<lparr>IndexedColumns = [''user'' \<mapsto> [''user_id'', ''status'']], SearchColumns = Map.empty,
          SearchWordColumnTable = [], ColumnGroupPath = ''group_path''\<rparr>
         (\<lparr>DB = []\<rparr>, [])
         \<lparr>Fields = [\<lparr>tag = Some ''user_id,omitempty'', val = PStringList [''u1'']\<rparr>,
                    \<lparr>tag = Some ''status,omitempty'', val = PString []\<rparr>],
          GetSortKey = None, GetReverse = None\<rparr> ''user'' [])))
   \<and> (\<forall>a. Where ''status in (?)'' a
     \<notin> set (attached \<lparr>DB = []\<rparr> (fst (BuildFilterConditions (\<lambda>s. s)
         \<lparr>IndexedColumns = [''user'' \<mapsto> [''user_id'', ''status'']], SearchColumns = Map.empty,
          SearchWordColumnTable = [], ColumnGroupPath = ''group_path''\<rparr>
         (\<lparr>DB = []\<rparr>, [])
         \<lparr>Fields = [\<lparr>tag = Some ''user_id,omitempty'', val = PStringList [''u1'']\<rparr>,
                    \<lparr>tag = Some ''status,omitempty'', val = PString []\<rparr>],
          GetSortKey = None, GetReverse = None\<rparr> ''user'' []))))"
  using BuildFilterConditions_indexed_in [where S = "\<lambda>s. s" and T = "''user''" and E = "[]"
      and c = "\<lparr>DB = []\<rparr>" and log = "[]"
      and cols = "[''user_id'', ''status'']"
      and k = "\<lparr>IndexedColumns = [''user'' \<mapsto> [''user_id'', ''status'']],
          SearchColumns = Map.empty, SearchWordColumnTable = [], ColumnGroupPath = ''group_path''\<rparr>"
      and req = "\<lparr>Fields = [\<lparr>tag = Some ''user_id,omitempty'', val = PStringList [''u1'']\<rparr>,
                    \<lparr>tag = Some ''status,omitempty'', val = PString []\<rparr>],
          GetSortKey = None, GetReverse = None\<rparr>"
      and f = "\<lparr>tag = Some ''user_id,omitempty'', val = PStringList [''u1'']\<rparr>"]
    BuildFilterConditions_indexed_in [where S = "\<lambda>s. s" and T = "''user''" and E = "[]"
      and c = "\<lparr>DB = []\<rparr>" and log = "[]"
      and cols = "[''user_id'', ''status'']"
      and k = "\<lparr>IndexedColumns = [''user'' \<mapsto> [''user_id'', ''status'']],
          SearchColumns = Map.empty, SearchWordColumnTable = [], ColumnGroupPath = ''group_path''\<rparr>"
      and req = "\<lparr>Fields = [\<lparr>tag = Some ''user_id,omitempty'', val = PStringList [''u1'']\<rparr>,
                    \<lparr>tag = Some ''status,omitempty'', val = PString []\<rparr>],
          GetSortKey = None, GetReverse = None\<rparr>"
      and f = "\<lparr>tag = Some ''status,omitempty'', val = PString []\<rparr>"]
  by (simp add: getFieldName_def Tag_def Split_def)

lemma getSearchFilter_flat_or:
  "getSearchFilter S k T (Some (Strings vs)) E (c, log) =
     (c\<lparr>DB := DB c @
        [Where (Join (concat (map (\<lambda>v. map (columnCondition S v)
                                        (filter (\<lambda>col. col \<notin> set E) (searchColumnsOf k T))) vs))
                  '' OR '') []]\<rparr>, log)"
  by (simp add: getSearchFilter_eq termLoop_concat)

text \<open>
  Claim C2. The claim asks for one OR-group per term, the groups joined by AND. The
  code appends the joined conditions to \<^verbatim>\<open>andConditions\<close> once, after the loop over
  the terms, so the conditions of all terms stand in one OR and the join with
  \<^verbatim>\<open> AND \<close> has nothing to join: for the terms \<open>a\<close> and \<open>b\<close> and the one searchable
  column \<open>name\<close> the clause is \<^verbatim>\<open>name LIKE '%a%' OR name LIKE '%b%'\<close>.
\<close>

theorem BuildFilterConditions_two_terms:
  "BuildFilterConditions SimplifyString
     \<lparr>IndexedColumns = Map.empty, SearchColumns = [''user'' \<mapsto> [''name'']],
      SearchWordColumnTable = [''user''], ColumnGroupPath = ''group_path''\<rparr>
     (\<lparr>DB = []\<rparr>, [])
     \<lparr>Fields = [\<lparr>tag = Some ''search_word,omitempty'', val = PStringList [''a'', ''b'']\<rparr>],
      GetSortKey = None, GetReverse = None\<rparr>
     ''user'' []
   = (\<lparr>DB = [Where (''name LIKE '%'' @ SimplifyString ''a'' @ ''%' OR name LIKE '%''
                      @ SimplifyString ''b'' @ ''%'' @ quote) []]\<rparr>, [])"
  by (simp add: BuildFilterConditions_def buildFilterConditions_def fieldStep_def
      getFieldName_def Tag_def Split_def SearchWordColumnName_def
      getSearchFilter_def searchColumnsOf_def HasSuffix_def gormWhere_def quote_def)

lemma fieldStep_unfold:
  "fieldStep S k T E f (c, log) =
     (if searchStep k T f
      then getSearchFilter S k T (getReqValue (val f)) E (c\<lparr>DB := DB c @ inClause k T f\<rparr>, log)
      else (c\<lparr>DB := DB c @ inClause k T f\<rparr>, log))"
proof -
  have c1: "(case IndexedColumns k T of
               Some indexedColumns \<Rightarrow>
                 if Contains indexedColumns (getFieldName f)
                 then (case getReqValue (val f) of
                         Some v \<Rightarrow> c\<lparr>DB := gormWhere (DB c) (getFieldName f @ '' in (?)'') [v]\<rparr>
                       | None \<Rightarrow> c)
                 else c
             | None \<Rightarrow> c) = c\<lparr>DB := DB c @ inClause k T f\<rparr>"
    by (simp add: inClause_def gormWhere_def Contains_set split: option.split)
  show ?thesis
    unfolding fieldStep_def Let_def fst_conv snd_conv c1
    by (simp add: searchStep_def Contains_set)
qed

lemma fieldStep_eq:
  "fieldStep S k T E f (c, log) =
     (c\<lparr>DB := DB c @ inClause k T f @ searchClause S k T E f\<rparr>,
      log @ (if searchStep k T f \<and> notStringList (getReqValue (val f))
             then [Warnf ''search_word [%+v] is not []string'' (getReqValue (val f))]
             else []))"
proof (cases "searchStep k T f")
  case False
  then show ?thesis by (simp add: fieldStep_unfold searchClause_def)
next
  case True
  show ?thesis
  proof (cases "getReqValue (val f)")
    case None
    with True show ?thesis
      by (simp add: fieldStep_unfold searchClause_def getSearchFilter_eq notStringList_def)
  next
    case (Some rv)
    with True show ?thesis
      by (cases rv)
        (simp_all add: fieldStep_unfold searchClause_def getSearchFilter_eq notStringList_def)
  qed
qed

lemma fieldsLoop_eq:
  "fieldsLoop S k T E fs (c, log) =
     (c\<lparr>DB := DB c @ concat (map (\<lambda>f. inClause k T f @ searchClause S k T E f) fs)\<rparr>,
      log @ map (\<lambda>f. Warnf ''search_word [%+v] is not []string'' (getReqValue (val f)))
              (filter (\<lambda>f. searchStep k T f \<and> notStringList (getReqValue (val f))) fs))"
  by (induction fs arbitrary: c log) (simp_all add: fieldStep_eq)

lemma membersLoop_Exported:
  "membersLoop S k T E (map Exported fs) st = Inr (fieldsLoop S k T E fs st)"
  by (induction fs arbitrary: st) simp_all

lemma membersLoop_Unexported:
  "Unexported t \<in> set ms \<Longrightarrow> membersLoop S k T E ms st = Inl UnexportedFieldPanic"
  by (induction S k T E ms st rule: membersLoop.induct) auto

lemma membersLoop_Inr:
  "membersLoop S k T E ms st = Inr r \<Longrightarrow> \<exists>fs. ms = map Exported fs"
proof (induction S k T E ms st rule: membersLoop.induct)
  case (1 S k T E st)
  show ?case by simp
next
  case (2 S k T E field rest st)
  then obtain fs where "rest = map Exported fs" by auto
  then show ?case by (intro exI [of _ "field # fs"]) simp
next
  case (3 S k T E t rest st)
  then show ?case by simp
qed

lemma getFieldName_blank: "getFieldName (blank f) = getFieldName f"
  by (simp add: blank_def getFieldName_def Tag_def)

lemma searchStep_blank: "searchStep k T (blank f) = searchStep k T f"
  by (simp add: searchStep_def getFieldName_blank)

lemma val_blank: "getReqValue (val (blank f)) = None"
  by (simp add: blank_def)

lemma searchClause_notStringList:
  "notStringList (getReqValue (val f)) \<Longrightarrow>
     searchClause S k T E f = searchClause S k T E (blank f)
     \<and> searchClause S k T E f = (if searchStep k T f then [Where [] []] else [])"
  by (auto simp: searchClause_def searchStep_blank val_blank notStringList_def
      split: option.splits reqvalue.splits)

lemma searchClause_absent:
  "getReqValue (val f) = None \<Longrightarrow>
     searchClause S k T E f = (if searchStep k T f then [Where [] []] else [])"
  by (simp add: searchClause_def)

lemma inClause_search_word:
  "\<forall>cols. IndexedColumns k T = Some cols \<longrightarrow> SearchWordColumnName \<notin> set cols \<Longrightarrow>
     getFieldName f = SearchWordColumnName \<Longrightarrow> inClause k T f = []"
  by (simp add: inClause_def split: option.split)

lemma BuildFilterConditions_eq:
  "BuildFilterConditions S k (c, log) req T E =
     (c\<lparr>DB := DB c @ concat (map (\<lambda>f. inClause k T f @ searchClause S k T E f) (Fields req))\<rparr>,
      log @ map (\<lambda>f. Warnf ''search_word [%+v] is not []string'' (getReqValue (val f)))
              (filter (\<lambda>f. searchStep k T f \<and> notStringList (getReqValue (val f)))
                 (Fields req)))"
  by (simp add: BuildFilterConditions_def buildFilterConditions_def fieldsLoop_eq)

lemma Call_returns_iff:
  "(\<exists>r. BuildFilterConditionsCall S k st arg T E = Inr r) \<longleftrightarrow>
     (\<exists>fs. arg = StructOf (map Exported fs))"
proof (cases arg)
  case NotStruct
  then show ?thesis by (simp add: BuildFilterConditionsCall_def)
next
  case (StructOf ms)
  then show ?thesis
    using membersLoop_Inr [of S k T E ms st] membersLoop_Exported [of S k T E _ st]
    by (auto simp: BuildFilterConditionsCall_def)
qed

lemma blanked_same_clauses:
  assumes "\<forall>cols. IndexedColumns k T = Some cols \<longrightarrow> SearchWordColumnName \<notin> set cols"
  shows "inClause k T (if searchStep k T g \<and> notStringList (getReqValue (val g))
                        then blank g else g)
           @ searchClause S k T E (if searchStep k T g \<and> notStringList (getReqValue (val g))
                        then blank g else g)
         = inClause k T g @ searchClause S k T E g"
proof (cases "searchStep k T g \<and> notStringList (getReqValue (val g))")
  case False
  then show ?thesis by auto
next
  case True
  then have n: "getFieldName g = SearchWordColumnName" by (simp add: searchStep_def)
  have "inClause k T g = []" using inClause_search_word [OF assms n] .
  moreover have "inClause k T (blank g) = []"
    using inClause_search_word [OF assms, of "blank g"] n by (simp add: getFieldName_blank)
  moreover have "searchClause S k T E g = searchClause S k T E (blank g)"
    using True searchClause_notStringList by blast
  ultimately show ?thesis using True by simp
qed

lemma blanked_no_warning:
  "\<not> (searchStep k T (if searchStep k T g \<and> notStringList (getReqValue (val g))
                        then blank g else g)
      \<and> notStringList (getReqValue (val (if searchStep k T g \<and> notStringList (getReqValue (val g))
                        then blank g else g))))"
  by (auto simp: val_blank notStringList_def)

text \<open>
  Claim C4, as amended. On a request that is a struct whose fields are all exported,
  for every table name and exclude list, the call of \<^verbatim>\<open>BuildFilterConditions\<close>
  returns, with no error and no panic, and only on such a request does it return.
  What it returns is the chain it was given with, for each field in order, the
  \<^verbatim>\<open>in (?)\<close> clause of the field and then its search clause, and the log with one
  warning for each search-word field whose value is present but not a list of
  strings, and nothing else. Such a value gets the search clause of an absent
  value, the empty condition, which restricts nothing; when the search word is not
  an indexed column of the table, making these values absent leaves the chain as it
  is and the log without a line. A field whose value normalizes to absent (a value
  of another type among them) attaches no \<^verbatim>\<open>in (?)\<close> clause, nothing else but that
  empty condition when it is the search word, and logs nothing.
\<close>

theorem BuildFilterConditions_on_struct_requests:
  "BuildFilterConditionsCall S k (c, log) (StructOf (map Exported (Fields req))) T E
     = Inr (BuildFilterConditions S k (c, log) req T E)
   \<and> ((\<exists>r. BuildFilterConditionsCall S k (c, log) arg T E = Inr r) \<longleftrightarrow>
        (\<exists>fs. arg = StructOf (map Exported fs)))
   \<and> BuildFilterConditions S k (c, log) req T E =
       (c\<lparr>DB := DB c @ concat (map (\<lambda>f. inClause k T f @ searchClause S k T E f) (Fields req))\<rparr>,
        log @ map (\<lambda>f. Warnf ''search_word [%+v] is not []string'' (getReqValue (val f)))
                (filter (\<lambda>f. searchStep k T f \<and> notStringList (getReqValue (val f)))
                   (Fields req)))
   \<and> (notStringList (getReqValue (val f)) \<longrightarrow>
        searchClause S k T E f = searchClause S k T E (blank f)
        \<and> searchClause S k T E f = (if searchStep k T f then [Where [] []] else []))
   \<and> (getReqValue (val f) = None \<longrightarrow>
        inClause k T f = []
        \<and> searchClause S k T E f = (if searchStep k T f then [Where [] []] else []))
   \<and> ((\<forall>cols. IndexedColumns k T = Some cols \<longrightarrow> SearchWordColumnName \<notin> set cols) \<longrightarrow>
        fst (BuildFilterConditions S k (c, log) req T E) =
          fst (BuildFilterConditions S k (c, log)
                 (req\<lparr>Fields := map (\<lambda>g. if searchStep k T g \<and> notStringList (getReqValue (val g))
                                          then blank g else g) (Fields req)\<rparr>) T E)
        \<and> snd (BuildFilterConditions S k (c, log)
                 (req\<lparr>Fields := map (\<lambda>g. if searchStep k T g \<and> notStringList (getReqValue (val g))
                                          then blank g else g) (Fields req)\<rparr>) T E) = log)
   \<and> getSearchFilter S k T (Some (Int32s x)) E (c, log) =
        (fst (getSearchFilter S k T None E (c, log)),
         log @ [Warnf ''search_word [%+v] is not []string'' (Some (Int32s x))])
   \<and> getSearchFilter S k T None E (c, log) = (c\<lparr>DB := DB c @ [Where [] []]\<rparr>, log)"
proof -
  let ?b = "\<lambda>g. if searchStep k T g \<and> notStringList (getReqValue (val g)) then blank g else g"
  have ret: "BuildFilterConditionsCall S k (c, log) (StructOf (map Exported (Fields req))) T E
     = Inr (BuildFilterConditions S k (c, log) req T E)"
    by (simp add: BuildFilterConditionsCall_def membersLoop_Exported
        BuildFilterConditions_def buildFilterConditions_def)
  have same: "fst (BuildFilterConditions S k (c, log) req T E) =
          fst (BuildFilterConditions S k (c, log) (req\<lparr>Fields := map ?b (Fields req)\<rparr>) T E)"
    if "\<forall>cols. IndexedColumns k T = Some cols \<longrightarrow> SearchWordColumnName \<notin> set cols"
    using blanked_same_clauses [OF that, of _ S E]
    by (simp add: BuildFilterConditions_eq comp_def)
  have quiet: "snd (BuildFilterConditions S k (c, log) (req\<lparr>Fields := map ?b (Fields req)\<rparr>) T E)
      = log"
    using blanked_no_warning [of k T]
    by (simp add: BuildFilterConditions_eq filter_map comp_def)
  have c2: "(\<exists>r. BuildFilterConditionsCall S k (c, log) arg T E = Inr r) \<longleftrightarrow>
        (\<exists>fs. arg = StructOf (map Exported fs))"
    by (rule Call_returns_iff)
  have c4: "notStringList (getReqValue (val f)) \<longrightarrow>
        searchClause S k T E f = searchClause S k T E (blank f)
        \<and> searchClause S k T E f = (if searchStep k T f then [Where [] []] else [])"
    using searchClause_notStringList [of f S k T E] by blast
  have c5: "getReqValue (val f) = None \<longrightarrow>
        inClause k T f = []
        \<and> searchClause S k T E f = (if searchStep k T f then [Where [] []] else [])"
    using searchClause_absent [of f S k T E] inClause_absent [of f k T] by blast
  have c6: "(\<forall>cols. IndexedColumns k T = Some cols \<longrightarrow> SearchWordColumnName \<notin> set cols) \<longrightarrow>
        fst (BuildFilterConditions S k (c, log) req T E) =
          fst (BuildFilterConditions S k (c, log) (req\<lparr>Fields := map ?b (Fields req)\<rparr>) T E)
        \<and> snd (BuildFilterConditions S k (c, log) (req\<lparr>Fields := map ?b (Fields req)\<rparr>) T E)
            = log"
    using same quiet by blast
  have c7: "getSearchFilter S k T (Some (Int32s x)) E (c, log) =
        (fst (getSearchFilter S k T None E (c, log)),
         log @ [Warnf ''search_word [%+v] is not []string'' (Some (Int32s x))])"
    by (simp add: getSearchFilter_eq)
  have c8: "getSearchFilter S k T None E (c, log) = (c\<lparr>DB := DB c @ [Where [] []]\<rparr>, log)"
    by (simp add: getSearchFilter_eq)
  show ?thesis
    by (intro conjI) (rule ret c2 BuildFilterConditions_eq c4 c5 c6 c7 c8)+
qed

theorem BuildFilterConditions_on_struct_requests_witness:
  "BuildFilterConditionsCall (\<lambda>s. s)
     \<lparr>IndexedColumns = [''user'' \<mapsto> [''status'']], SearchColumns = [''user'' \<mapsto> [''name'']],
      SearchWordColumnTable = [''user''], ColumnGroupPath = ''group_path''\<rparr>
     (\<lparr>DB = []\<rparr>, [])
     (StructOf [Exported \<lparr>tag = Some ''status'', val = POther\<rparr>, Exported \<lparr>tag = Some ''search_word'', val = PInt32Value (Some 5)\<rparr>])
     ''user'' []
   = Inr (\<lparr>DB = [Where [] []]\<rparr>,
          [Warnf ''search_word [%+v] is not []string'' (Some (Int32s [5]))])
   \<and> BuildFilterConditions (\<lambda>s. s)
     \<lparr>IndexedColumns = [''user'' \<mapsto> [''status'']], SearchColumns = [''user'' \<mapsto> [''name'']],
      SearchWordColumnTable = [''user''], ColumnGroupPath = ''group_path''\<rparr>
     (\<lparr>DB = []\<rparr>, [])
     \<lparr>Fields = [\<lparr>tag = Some ''status'', val = POther\<rparr>, \<lparr>tag = Some ''search_word'', val = POther\<rparr>], GetSortKey = None, GetReverse = None\<rparr>
     ''user'' []
   = (\<lparr>DB = [Where [] []]\<rparr>, [])
   \<and> searchClause (\<lambda>s. s)
     \<lparr>IndexedColumns = [''user'' \<mapsto> [''status'']], SearchColumns = [''user'' \<mapsto> [''name'']],
      SearchWordColumnTable = [''user''], ColumnGroupPath = ''group_path''\<rparr>
     ''user'' [] \<lparr>tag = Some ''search_word'', val = PInt32Value (Some 5)\<rparr> = [Where [] []]
   \<and> inClause
     \<lparr>IndexedColumns = [''user'' \<mapsto> [''status'']], SearchColumns = [''user'' \<mapsto> [''name'']],
      SearchWordColumnTable = [''user''], ColumnGroupPath = ''group_path''\<rparr>
     ''user'' \<lparr>tag = Some ''status'', val = POther\<rparr> = []"
proof -
  let ?k = "\<lparr>IndexedColumns = [''user'' \<mapsto> [''status'']], SearchColumns = [''user'' \<mapsto> [''name'']],
      SearchWordColumnTable = [''user''], ColumnGroupPath = ''group_path''\<rparr>"
  let ?f1 = "\<lparr>tag = Some ''status'', val = POther\<rparr>"
  let ?f2 = "\<lparr>tag = Some ''search_word'', val = PInt32Value (Some 5)\<rparr>"
  let ?req = "\<lparr>Fields = [?f1, ?f2], GetSortKey = None, GetReverse = None\<rparr>"
  let ?c = "\<lparr>DB = []\<rparr>"
  note t2 = BuildFilterConditions_on_struct_requests [where S = "\<lambda>s. s" and k = ?k
      and c = ?c and log = "[]" and req = ?req and T = "''user''" and E = "[]" and f = ?f2]
  note t1 = BuildFilterConditions_on_struct_requests [where S = "\<lambda>s. s" and k = ?k
      and c = ?c and log = "[]" and req = ?req and T = "''user''" and E = "[]" and f = ?f1]
  have ev: "BuildFilterConditions (\<lambda>s. s) ?k (?c, []) ?req ''user'' []
      = (\<lparr>DB = [Where [] []]\<rparr>,
         [Warnf ''search_word [%+v] is not []string'' (Some (Int32s [5]))])"
    by (simp add: BuildFilterConditions_def buildFilterConditions_def fieldStep_def
        getFieldName_def Tag_def Split_def SearchWordColumnName_def getSearchFilter_def
        gormWhere_def)
  have ret: "BuildFilterConditionsCall (\<lambda>s. s) ?k (?c, []) (StructOf (map Exported (Fields ?req)))
        ''user'' []
      = Inr (BuildFilterConditions (\<lambda>s. s) ?k (?c, []) ?req ''user'' [])"
    by (rule t2 [THEN conjunct1])
  have step: "searchStep ?k ''user'' ?f2" and nostep: "\<not> searchStep ?k ''user'' ?f1"
    by (simp_all add: searchStep_def getFieldName_def Tag_def Split_def SearchWordColumnName_def)
  have wrong: "notStringList (getReqValue (val ?f2))"
    and fine: "\<not> notStringList (getReqValue (val ?f1))"
    by (simp_all add: notStringList_def)
  have noidx: "\<forall>cols. IndexedColumns ?k ''user'' = Some cols \<longrightarrow> SearchWordColumnName \<notin> set cols"
    by (simp add: SearchWordColumnName_def)
  have bl: "map (\<lambda>g. if searchStep ?k ''user'' g \<and> notStringList (getReqValue (val g))
                      then blank g else g) (Fields ?req)
            = [?f1, \<lparr>tag = Some ''search_word'', val = POther\<rparr>]"
    using step nostep wrong by (simp add: blank_def)
  note c4 = t2 [THEN conjunct2, THEN conjunct2, THEN conjunct2, THEN conjunct1, THEN mp, OF wrong]
  note c5 = t1 [THEN conjunct2, THEN conjunct2, THEN conjunct2, THEN conjunct2, THEN conjunct1]
  note c6 = t2 [THEN conjunct2, THEN conjunct2, THEN conjunct2, THEN conjunct2, THEN conjunct2,
      THEN conjunct1, THEN mp, OF noidx]
  have a: "BuildFilterConditions (\<lambda>s. s) ?k (?c, [])
             \<lparr>Fields = [?f1, \<lparr>tag = Some ''search_word'', val = POther\<rparr>], GetSortKey = None, GetReverse = None\<rparr>
             ''user'' [] = (\<lparr>DB = [Where [] []]\<rparr>, [])"
    using c6 ev unfolding bl by (simp add: prod_eq_iff)
  have b: "searchClause (\<lambda>s. s) ?k ''user'' [] ?f2 = [Where [] []]"
    using c4 [THEN conjunct2] step by simp
  have d: "inClause ?k ''user'' ?f1 = []"
    using c5 by simp
  from ret ev a b d show ?thesis by simp
qed

text \<open>
  Claim C4 as stated fails: the call panics on a request that is not a struct (a nil
  request among them), in \<^verbatim>\<open>structs.Fields\<close>, and on a struct with a field that is
  not exported, in \<^verbatim>\<open>field.Value\<close>.
\<close>

theorem BuildFilterConditions_aborts_counterexample:
  "BuildFilterConditionsCall (\<lambda>s. s)
     \<lparr>IndexedColumns = [''user'' \<mapsto> [''user_id'']], SearchColumns = [''user'' \<mapsto> [''name'']],
      SearchWordColumnTable = [''user''], ColumnGroupPath = ''group_path''\<rparr>
     (\<lparr>DB = []\<rparr>, []) NotStruct ''user'' []
   = Inl NotStructPanic
   \<and> BuildFilterConditionsCall (\<lambda>s. s)
     \<lparr>IndexedColumns = [''user'' \<mapsto> [''user_id'']], SearchColumns = [''user'' \<mapsto> [''name'']],
      SearchWordColumnTable = [''user''], ColumnGroupPath = ''group_path''\<rparr>
     (\<lparr>DB = []\<rparr>, [])
     (StructOf [Exported \<lparr>tag = Some ''user_id'', val = PString ''u1''\<rparr>, Unexported None])
     ''user'' []
   = Inl UnexportedFieldPanic"
  by (simp add: BuildFilterConditionsCall_def)

end
